theory Spec2Isabelle
  imports Main "HOL-Library.Sublist"
begin

text \<open>
  The NASALPROM PROM copier collects the answers to two questionnaires, NOSE (5 items,
  scored 0..4) and SNOT-22 (22 items, scored 0..5), and renders them as a tab-separated
  spreadsheet row, as a narrative report and as a patient message. This theory embeds the
  scoring, validation and rendering functions of the revision that reports the scaled NOSE
  score, and proves what its specification says about them.
\<close>

section \<open>JavaScript values and built-ins used by the PROM copier\<close>

text \<open>
  A questionnaire answer is \<open>number | null\<close>: the value of the checked radio button of
  an item, or \<open>null\<close> when none is checked. Radio values are the integers
  \<open>0..max\<close>, so a number is modelled as an \<open>int\<close>.
  A JavaScript string is modelled as a \<open>string\<close>; the two non-ASCII characters of the
  program text, the en dash and the typographic apostrophe, are written as their UTF-8
  bytes. No function of the program looks inside those characters.
\<close>

type_synonym score = "int option"

abbreviation TAB :: char where "TAB \<equiv> CHR 0x09"
abbreviation NL :: char where "NL \<equiv> CHR 0x0A"

definition en_dash :: string where
  "en_dash = [CHR 0xE2, CHR 0x80, CHR 0x93]"

definition apostrophe :: string where
  "apostrophe = [CHR 0xE2, CHR 0x80, CHR 0x99]"

text \<open>\<open>String(n)\<close> and \<open>`${n}`\<close> for an integer \<open>n\<close>: its decimal numeral, with a
  leading minus sign when negative.\<close>

definition digit :: "nat \<Rightarrow> char" where
  "digit d = ''0123456789'' ! d"

function showNat :: "nat \<Rightarrow> string" where
  "showNat n = (if n < 10 then [digit n] else showNat (n div 10) @ [digit (n mod 10)])"
  by pat_completeness auto
termination
  by (relation "measure (\<lambda>n. n)") auto

declare showNat.simps [simp del]

definition js_String :: "int \<Rightarrow> string" where
  "js_String i = (if i < 0 then CHR ''-'' # showNat (nat (- i)) else showNat (nat i))"

text \<open>\<open>Array.prototype.join(sep)\<close> on an array of strings.\<close>

fun str_join :: "string \<Rightarrow> string list \<Rightarrow> string" where
  "str_join sep [] = []"
| "str_join sep [x] = x"
| "str_join sep (x # y # ys) = x @ sep @ str_join sep (y # ys)"

text \<open>\<open>String.prototype.split(c)\<close> for a one-character separator: the pieces between
  the occurrences of \<open>c\<close>; the empty string gives one empty piece.\<close>

fun str_split :: "char \<Rightarrow> string \<Rightarrow> string list" where
  "str_split c [] = [[]]"
| "str_split c (x # xs) =
     (if x = c then [] # str_split c xs
      else (x # hd (str_split c xs)) # tl (str_split c xs))"

text \<open>\<open>sum(arr) = arr.reduce((a, b) => a + b, 0)\<close>.\<close>

definition sum_arr :: "int list \<Rightarrow> int" where
  "sum_arr arr = foldl (\<lambda>a b. a + b) 0 arr"


section \<open>Questionnaire definitions\<close>

definition NOSE_ITEMS :: "string list" where
  "NOSE_ITEMS =
    [''Nasal congestion'',
     ''Nasal obstruction'',
     ''Trouble breathing through nose'',
     ''Trouble sleeping'',
     ''Unable to get enough air through nose during exercise'']"

definition SNOT_ITEMS :: "string list" where
  "SNOT_ITEMS =
    [''Need to blow nose'',
     ''Sneezing'',
     ''Runny nose'',
     ''Nasal obstruction'',
     ''Loss of smell or taste'',
     ''Cough'',
     ''Post-nasal discharge'',
     ''Thick nasal discharge'',
     ''Ear fullness'',
     ''Dizziness'',
     ''Ear pain'',
     ''Facial pain/pressure'',
     ''Difficulty falling asleep'',
     ''Waking up at night'',
     ''Lack of a good night'' @ apostrophe @ ''s sleep'',
     ''Waking up tired'',
     ''Fatigue'',
     ''Reduced productivity'',
     ''Reduced concentration'',
     ''Frustrated/restless/irritable'',
     ''Sad'',
     ''Embarrassed'']"


section \<open>Date formatting\<close>

text \<open>
  \<open>const [y, m, d] = iso.split("-")\<close> binds the first three pieces, \<open>undefined\<close> for a
  missing one; \<open>!y\<close> holds for \<open>undefined\<close> and for the empty string.
\<close>

definition ddmmyyyy :: "string \<Rightarrow> string" where
  "ddmmyyyy isoStr =
     (if isoStr = [] then []
      else (case str_split (CHR ''-'') isoStr of
              y # m # d # _ \<Rightarrow>
                if y = [] \<or> m = [] \<or> d = [] then isoStr else d @ ''/'' @ m @ ''/'' @ y
            | _ \<Rightarrow> isoStr))"


section \<open>Completion state\<close>

text \<open>The states are the strings \<open>"empty"\<close>, \<open>"complete"\<close> and \<open>"partial"\<close>, as in
  the source.\<close>

definition completionState :: "score list \<Rightarrow> string" where
  "completionState scores =
     (let answered = length (filter (\<lambda>v. v \<noteq> None) scores)
      in if answered = 0 then ''empty''
         else if answered = length scores then ''complete''
         else ''partial'')"

text \<open>The two conditions the classification is specified by: every slot holds a
  number, no slot holds a number.\<close>

definition all_answered :: "score list \<Rightarrow> bool" where
  "all_answered scores = list_all (\<lambda>v. v \<noteq> None) scores"

definition none_answered :: "score list \<Rightarrow> bool" where
  "none_answered scores = list_all (\<lambda>v. v = None) scores"

text \<open>A thrown \<open>Error(message)\<close> is the left injection of its message.\<close>

type_synonym 'a result = "string + 'a"

definition assertNotPartialOrThrow :: "string \<Rightarrow> score list \<Rightarrow> string result" where
  "assertNotPartialOrThrow label scores =
     (let st = completionState scores
      in if st = ''partial''
         then Inl (label @ '' is partly completed. Please answer all questions in '' @ label
                     @ '', or clear it and leave it blank.'')
         else Inr st)"

text \<open>\<open>scores.map(v => Number(v))\<close>; \<open>Number(null)\<close> is \<open>0\<close>.\<close>

definition scoresToNumbers :: "score list \<Rightarrow> int list" where
  "scoresToNumbers scores = map (\<lambda>v. case v of None \<Rightarrow> 0 | Some n \<Rightarrow> n) scores"





section \<open>Tabular rows\<close>

definition buildFullBlockTSV :: "int list \<Rightarrow> int list \<Rightarrow> string" where
  "buildFullBlockTSV noseNums snotNums =
     (let cols = map js_String noseNums @ [js_String (sum_arr noseNums)]
                 @ map js_String snotNums @ [js_String (sum_arr snotNums)]
      in str_join [TAB] cols)"

definition buildNoseOnlyTSV :: "int list \<Rightarrow> string" where
  "buildNoseOnlyTSV noseNums =
     (let cols = map js_String noseNums @ [js_String (sum_arr noseNums)]
      in str_join [TAB] cols)"

definition buildSnotOnlyTSV :: "int list \<Rightarrow> string" where
  "buildSnotOnlyTSV snotNums =
     (let cols = map js_String snotNums @ [js_String (sum_arr snotNums)]
      in str_join [TAB] cols)"


section \<open>Narrative report\<close>

text \<open>\<open>`${nums[i]}`\<close>: reading past the end of an array gives \<open>undefined\<close>, which a
  template literal prints as the word.\<close>

definition item_value :: "int list \<Rightarrow> nat \<Rightarrow> string" where
  "item_value nums i = (if i < length nums then js_String (nums ! i) else ''undefined'')"

text \<open>\<open>ITEMS.forEach((t, i) => lines.push(`- ${t}: ${nums[i]}`))\<close>: the lines pushed,
  in order.\<close>

definition item_lines :: "string list \<Rightarrow> int list \<Rightarrow> string list" where
  "item_lines items nums =
     map (\<lambda>(i, t). ''- '' @ t @ '': '' @ item_value nums i) (enumerate 0 items)"

text \<open>\<open>while (lines.length && lines[lines.length - 1] === "") lines.pop()\<close>.\<close>

function popBlank :: "string list \<Rightarrow> string list" where
  "popBlank lines = (if lines \<noteq> [] \<and> last lines = [] then popBlank (butlast lines) else lines)"
  by pat_completeness auto
termination
  by (relation "measure length") auto

declare popBlank.simps [simp del]

text \<open>The array \<open>lines\<close> of \<open>buildEprText\<close> as it stands before the final
  \<open>join\<close>. A score argument is an array or \<open>null\<close>; every array is truthy.\<close>

definition buildEprLines ::
  "string \<Rightarrow> string \<Rightarrow> string \<Rightarrow> int list option \<Rightarrow> int list option \<Rightarrow> string list" where
  "buildEprLines dateIso timepoint blockLabel noseNumsOrNull snotNumsOrNull =
     (let meta = (if dateIso \<noteq> [] then [''Date: '' @ ddmmyyyy dateIso] else [])
               @ (if timepoint \<noteq> [] then [''Timepoint: '' @ timepoint] else [])
               @ (if blockLabel \<noteq> [] then [''Dataset: '' @ blockLabel] else []);
          lines0 = [''PROMs recorded:'']
               @ (if meta \<noteq> [] then [str_join '' | '' meta] else [])
               @ [[]];
          lines1 = (case noseNumsOrNull of
                      None \<Rightarrow> lines0
                    | Some noseNums \<Rightarrow>
                        (let noseRaw = sum_arr noseNums;
                             noseScaled = noseRaw * 5
                         in lines0
                            @ [''NOSE raw total: '' @ js_String noseRaw @ '' / 20'',
                               ''NOSE score (0'' @ en_dash @ ''100): '' @ js_String noseScaled
                                 @ '' / 100'']
                            @ item_lines NOSE_ITEMS noseNums
                            @ [[]]));
          lines2 = (case snotNumsOrNull of
                      None \<Rightarrow> lines1
                    | Some snotNums \<Rightarrow>
                        (let snotTotal = sum_arr snotNums
                         in lines1
                            @ [''SNOT-22 total: '' @ js_String snotTotal @ '' / 110'']
                            @ item_lines SNOT_ITEMS snotNums
                            @ [[]]))
      in popBlank lines2)"

definition buildEprText ::
  "string \<Rightarrow> string \<Rightarrow> string \<Rightarrow> int list option \<Rightarrow> int list option \<Rightarrow> string" where
  "buildEprText dateIso timepoint blockLabel noseNumsOrNull snotNumsOrNull =
     str_join [NL] (buildEprLines dateIso timepoint blockLabel noseNumsOrNull snotNumsOrNull)"


section \<open>Choosing the row to copy\<close>

record smartTSV =
  mode :: string
  tsv :: string
  noseNums :: "int list option"
  snotNums :: "int list option"

definition buildSmartTSV :: "score list \<Rightarrow> score list \<Rightarrow> smartTSV result" where
  "buildSmartTSV noseScores snotScores =
     (case assertNotPartialOrThrow ''NOSE'' noseScores of
        Inl e \<Rightarrow> Inl e
      | Inr noseState \<Rightarrow>
     (case assertNotPartialOrThrow ''SNOT-22'' snotScores of
        Inl e \<Rightarrow> Inl e
      | Inr snotState \<Rightarrow>
          if noseState = ''empty'' \<and> snotState = ''empty''
          then Inl ''Please complete NOSE and/or SNOT-22 before copying.''
          else if noseState = ''complete'' \<and> snotState = ''complete''
          then (let ns = scoresToNumbers noseScores;
                    ss = scoresToNumbers snotScores
                in Inr \<lparr>mode = ''full'', tsv = buildFullBlockTSV ns ss,
                        noseNums = Some ns, snotNums = Some ss\<rparr>)
          else if noseState = ''complete''
          then (let ns = scoresToNumbers noseScores
                in Inr \<lparr>mode = ''nose'', tsv = buildNoseOnlyTSV ns,
                        noseNums = Some ns, snotNums = None\<rparr>)
          else (let ss = scoresToNumbers snotScores
                in Inr \<lparr>mode = ''snot'', tsv = buildSnotOnlyTSV ss,
                        noseNums = None, snotNums = Some ss\<rparr>)))"


section \<open>Patient message\<close>

text \<open>\<open>config.includeTsvLine !== false\<close>, for a configuration that leaves the flag out
  (\<open>None\<close>) or sets it to a boolean.\<close>

definition includeTsvLine :: "bool option \<Rightarrow> bool" where
  "includeTsvLine cfg = (cfg \<noteq> Some False)"

record message =
  subject :: string
  body :: string

text \<open>
  \<open>buildPatientMessageOrThrow\<close> is a closure of \<open>mountPatient(config)\<close>. What it reads
  from the page is passed in: the date and timepoint fields (the empty string when
  absent) and the two answer lists.
\<close>

definition buildPatientMessageOrThrow ::
  "bool option \<Rightarrow> string \<Rightarrow> string \<Rightarrow> score list \<Rightarrow> score list \<Rightarrow> message result" where
  "buildPatientMessageOrThrow cfg dateIso timepoint noseScores snotScores =
     (case assertNotPartialOrThrow ''NOSE'' noseScores of
        Inl e \<Rightarrow> Inl e
      | Inr noseState \<Rightarrow>
     (case assertNotPartialOrThrow ''SNOT-22'' snotScores of
        Inl e \<Rightarrow> Inl e
      | Inr snotState \<Rightarrow>
          if noseState = ''empty'' \<and> snotState = ''empty''
          then Inl ''Please complete NOSE and/or SNOT-22 before emailing results.''
          else
            (let ns = (if noseState = ''complete'' then Some (scoresToNumbers noseScores)
                       else None);
                 ss = (if snotState = ''complete'' then Some (scoresToNumbers snotScores)
                       else None);
                 readable = buildEprText dateIso timepoint [] ns ss;
                 subjectParts = [''NASALPROM PROMs'']
                     @ (if dateIso \<noteq> [] then [ddmmyyyy dateIso] else [])
                     @ (if timepoint \<noteq> [] then [timepoint] else []);
                 subj = str_join ('' '' @ en_dash @ '' '') subjectParts
             in if \<not> includeTsvLine cfg
                then Inr \<lparr>subject = subj, body = readable @ [NL]\<rparr>
                else
                  (let tsvBits =
                         (case (ns, ss) of
                            (Some n, Some s) \<Rightarrow> [''FULL TSV:'' @ [NL] @ buildFullBlockTSV n s]
                          | (Some n, None) \<Rightarrow> [''NOSE TSV only:'' @ [NL] @ buildNoseOnlyTSV n]
                          | (None, Some s) \<Rightarrow> [''SNOT-22 TSV only:'' @ [NL] @ buildSnotOnlyTSV s]
                          | (None, None) \<Rightarrow> [])
                   in Inr \<lparr>subject = subj,
                           body = readable @ [NL, NL] @ str_join [NL, NL] tsvBits @ [NL]\<rparr>))))"


section \<open>Reading a row back\<close>

text \<open>
  What a spreadsheet makes of a pasted row: the cells are the pieces between tabs, and a
  cell holding a plain decimal numeral (an optional minus sign, then digits only) is the
  integer it denotes.
\<close>

definition is_digit :: "char \<Rightarrow> bool" where
  "is_digit c = (c \<in> set ''0123456789'')"

definition digit_val :: "char \<Rightarrow> nat" where
  "digit_val c = of_char c - 48"

definition decimal_nat :: "string \<Rightarrow> nat" where
  "decimal_nat s = foldl (\<lambda>a c. 10 * a + digit_val c) 0 s"

definition plain_decimal :: "string \<Rightarrow> bool" where
  "plain_decimal s =
     (case s of
        [] \<Rightarrow> False
      | c # r \<Rightarrow> if c = CHR ''-'' then r \<noteq> [] \<and> list_all is_digit r else list_all is_digit s)"

definition decimal_value :: "string \<Rightarrow> int" where
  "decimal_value s =
     (case s of
        [] \<Rightarrow> 0
      | c # r \<Rightarrow> if c = CHR ''-'' then - int (decimal_nat r) else int (decimal_nat s))"


section \<open>Notions of the specification\<close>

text \<open>The header: the line "PROMs recorded:", then, when a field is present, one line
  joining the present fields with " | " in the order date, timepoint, dataset.\<close>

definition spec_head :: "string \<Rightarrow> string \<Rightarrow> string \<Rightarrow> string list" where
  "spec_head dateIso timepoint blockLabel =
     (let fields = (if dateIso = [] then [] else [''Date: '' @ ddmmyyyy dateIso])
                 @ (if timepoint = [] then [] else [''Timepoint: '' @ timepoint])
                 @ (if blockLabel = [] then [] else [''Dataset: '' @ blockLabel])
      in if fields = [] then [''PROMs recorded:'']
         else [''PROMs recorded:'', str_join '' | '' fields])"

text \<open>One item line, "- <label>: <value>".\<close>

definition spec_item_line :: "string \<Rightarrow> int \<Rightarrow> string" where
  "spec_item_line label v = ''- '' @ label @ '': '' @ js_String v"

text \<open>A date splits into at least three pieces of which the first three are
  nonempty.\<close>

definition three_nonempty :: "string list \<Rightarrow> bool" where
  "three_nonempty parts = (3 \<le> length parts \<and> list_all (\<lambda>p. p \<noteq> []) (take 3 parts))"


section \<open>Facts about the built-ins\<close>

lemma foldl_plus_sum_list: "foldl (\<lambda>a b. a + b) (a::int) xs = a + sum_list xs"
  by (induction xs arbitrary: a) simp_all

lemma sum_arr_sum_list: "sum_arr arr = sum_list arr"
  by (simp add: sum_arr_def foldl_plus_sum_list)

lemma str_split_not_Nil [simp]: "str_split c s \<noteq> []"
  by (induction s) simp_all

lemma str_split_no_sep: "c \<notin> set s \<Longrightarrow> str_split c s = [s]"
  by (induction s) auto

lemma str_split_append_sep:
  "c \<notin> set a \<Longrightarrow> str_split c (a @ c # r) = a # str_split c r"
  by (induction a) auto

lemma str_split_join:
  "xs \<noteq> [] \<Longrightarrow> \<forall>x \<in> set xs. c \<notin> set x \<Longrightarrow> str_split c (str_join [c] xs) = xs"
proof (induction "[c]" xs rule: str_join.induct)
  case 1
  then show ?case by simp
next
  case (2 x)
  then show ?case by (simp add: str_split_no_sep)
next
  case (3 x y ys)
  then show ?case by (simp add: str_split_append_sep)
qed

lemma digit_cases:
  assumes "d < 10"
  shows "is_digit (digit d) \<and> digit_val (digit d) = d"
proof -
  from assms have "d = 0 \<or> d = 1 \<or> d = 2 \<or> d = 3 \<or> d = 4 \<or> d = 5 \<or> d = 6 \<or> d = 7
      \<or> d = 8 \<or> d = 9"
    by arith
  then show ?thesis
    by (elim disjE) (simp_all add: digit_def is_digit_def digit_val_def)
qed

lemma showNat_digits: "showNat n \<noteq> [] \<and> list_all is_digit (showNat n)"
proof (induction n rule: showNat.induct)
  case (1 n)
  show ?case
  proof (cases "n < 10")
    case True
    then show ?thesis
      using digit_cases [of n] by (simp add: showNat.simps [of n])
  next
    case False
    have "n mod 10 < 10" by simp
    then have "is_digit (digit (n mod 10))"
      using digit_cases by blast
    with False 1 show ?thesis
      by (simp add: showNat.simps [of n])
  qed
qed

lemma decimal_nat_snoc: "decimal_nat (s @ [c]) = 10 * decimal_nat s + digit_val c"
  by (simp add: decimal_nat_def)

lemma decimal_nat_showNat: "decimal_nat (showNat n) = n"
proof (induction n rule: showNat.induct)
  case (1 n)
  show ?case
  proof (cases "n < 10")
    case True
    then show ?thesis
      using digit_cases [of n] by (simp add: showNat.simps [of n] decimal_nat_def)
  next
    case False
    have "n mod 10 < 10" by simp
    then have "digit_val (digit (n mod 10)) = n mod 10"
      using digit_cases by blast
    with False 1 show ?thesis
      by (simp add: showNat.simps [of n] decimal_nat_snoc)
  qed
qed

lemma is_digit_not_special:
  "is_digit c \<Longrightarrow> c \<noteq> CHR ''-'' \<and> c \<noteq> TAB \<and> c \<noteq> NL"
  by (auto simp: is_digit_def)

lemma showNat_chars: "c \<in> set (showNat n) \<Longrightarrow> is_digit c"
  using showNat_digits [of n] by (simp add: list_all_iff)

lemma js_String_not_Nil: "js_String i \<noteq> []"
  using showNat_digits by (simp add: js_String_def)

lemma showNat_no_special: "TAB \<notin> set (showNat n) \<and> NL \<notin> set (showNat n)"
  using showNat_chars is_digit_not_special by blast

lemma js_String_no_TAB: "TAB \<notin> set (js_String i)"
  using showNat_no_special by (simp add: js_String_def)

lemma js_String_no_NL: "NL \<notin> set (js_String i)"
  using showNat_no_special by (simp add: js_String_def)

lemma showNat_hd: "\<exists>c r. showNat n = c # r \<and> c \<noteq> CHR ''-''"
proof (cases "showNat n")
  case Nil
  then show ?thesis using showNat_digits [of n] by simp
next
  case (Cons c r)
  then have "is_digit c" using showNat_chars [of c n] by simp
  with Cons show ?thesis using is_digit_not_special by blast
qed

lemma plain_decimal_js_String: "plain_decimal (js_String i)"
proof (cases "i < 0")
  case True
  then show ?thesis
    using showNat_digits [of "nat (- i)"] by (simp add: js_String_def plain_decimal_def)
next
  case False
  obtain c r where cr: "showNat (nat i) = c # r" "c \<noteq> CHR ''-''"
    using showNat_hd by blast
  then show ?thesis
    using False showNat_digits [of "nat i"] by (simp add: js_String_def plain_decimal_def)
qed

lemma decimal_value_js_String: "decimal_value (js_String i) = i"
proof (cases "i < 0")
  case True
  then show ?thesis
    by (simp add: js_String_def decimal_value_def decimal_nat_showNat)
next
  case False
  obtain c r where cr: "showNat (nat i) = c # r" "c \<noteq> CHR ''-''"
    using showNat_hd by blast
  have "decimal_nat (c # r) = nat i"
    using decimal_nat_showNat [of "nat i"] cr by simp
  then show ?thesis
    using False cr by (simp add: js_String_def decimal_value_def)
qed

lemma popBlank_Nil [simp]: "popBlank [] = []"
  by (simp add: popBlank.simps)

lemma popBlank_snoc_blank [simp]: "popBlank (xs @ [[]]) = popBlank xs"
  by (simp add: popBlank.simps [of "xs @ [[]]"])

lemma popBlank_last: "popBlank xs = [] \<or> last (popBlank xs) \<noteq> []"
proof (induction xs rule: popBlank.induct)
  case (1 lines)
  show ?case
  proof (cases "lines \<noteq> [] \<and> last lines = []")
    case True
    then have "popBlank lines = popBlank (butlast lines)"
      by (simp add: popBlank.simps [of lines])
    with 1 True show ?thesis by simp
  next
    case False
    then have "popBlank lines = lines"
      by (subst popBlank.simps) auto
    with False show ?thesis by auto
  qed
qed


lemma str_join_not_Nil:
  "xs \<noteq> [] \<Longrightarrow> last xs \<noteq> [] \<Longrightarrow> str_join sep xs \<noteq> []"
  by (induction sep xs rule: str_join.induct) auto

lemma str_join_last:
  "xs \<noteq> [] \<Longrightarrow> last xs \<noteq> [] \<Longrightarrow> last (str_join sep xs) = last (last xs)"
proof (induction sep xs rule: str_join.induct)
  case (3 sep x y ys)
  then have "str_join sep (y # ys) \<noteq> []"
    using str_join_not_Nil [of "y # ys" sep] by simp
  with 3 show ?case by simp
qed simp_all

lemma str_join_chars: "set (str_join sep xs) \<subseteq> set sep \<union> (\<Union>x \<in> set xs. set x)"
  by (induction sep xs rule: str_join.induct) auto


section \<open>Facts about the rows and the date\<close>

lemma row_fields:
  "vals \<noteq> [] \<Longrightarrow> str_split TAB (str_join [TAB] (map js_String vals)) = map js_String vals"
  by (rule str_split_join) (auto simp: js_String_no_TAB)

lemma row_decimal: "map decimal_value (map js_String vals) = vals"
  by (simp add: decimal_value_js_String map_idI)

lemma row_plain: "list_all plain_decimal (map js_String vals)"
  by (simp add: list_all_iff plain_decimal_js_String)

lemma row_one_line:
  assumes "vals \<noteq> []"
  shows "str_join [TAB] (map js_String vals) \<noteq> []
         \<and> last (str_join [TAB] (map js_String vals)) \<noteq> TAB
         \<and> NL \<notin> set (str_join [TAB] (map js_String vals))"
proof -
  let ?xs = "map js_String vals"
  have ne: "?xs \<noteq> []" using assms by simp
  have lastne: "last ?xs \<noteq> []"
    using assms by (simp add: last_map js_String_not_Nil)
  have "last (str_join [TAB] ?xs) = last (last ?xs)"
    using ne lastne by (rule str_join_last)
  moreover have "last (last ?xs) \<in> set (js_String (last vals))"
    using assms lastne by (simp add: last_map)
  ultimately have "last (str_join [TAB] ?xs) \<noteq> TAB"
    using js_String_no_TAB by metis
  moreover have "str_join [TAB] ?xs \<noteq> []"
    using ne lastne by (rule str_join_not_Nil)
  moreover have "NL \<notin> set (str_join [TAB] ?xs)"
    using str_join_chars [of "[TAB]" ?xs] js_String_no_NL by auto
  ultimately show ?thesis by simp
qed

lemma full_cols:
  "buildFullBlockTSV nose snot =
     str_join [TAB] (map js_String (nose @ [sum_list nose] @ snot @ [sum_list snot]))"
  by (simp add: buildFullBlockTSV_def sum_arr_sum_list)

lemma nose_cols:
  "buildNoseOnlyTSV nose = str_join [TAB] (map js_String (nose @ [sum_list nose]))"
  by (simp add: buildNoseOnlyTSV_def sum_arr_sum_list)

lemma snot_cols:
  "buildSnotOnlyTSV snot = str_join [TAB] (map js_String (snot @ [sum_list snot]))"
  by (simp add: buildSnotOnlyTSV_def sum_arr_sum_list)

lemma ddmmyyyy_iso:
  assumes "y \<noteq> []" "m \<noteq> []" "d \<noteq> []"
    and "CHR ''-'' \<notin> set y" "CHR ''-'' \<notin> set m" "CHR ''-'' \<notin> set d"
  shows "ddmmyyyy (y @ ''-'' @ m @ ''-'' @ d) = d @ ''/'' @ m @ ''/'' @ y"
proof -
  have "str_split (CHR ''-'') (y @ ''-'' @ m @ ''-'' @ d) = [y, m, d]"
    using assms by (simp add: str_split_append_sep str_split_no_sep)
  then show ?thesis
    using assms by (simp add: ddmmyyyy_def)
qed


lemma row_decimal_take_drop:
  "map decimal_value (take k (drop j (map js_String vals))) = take k (drop j vals)"
proof -
  have "take k (drop j (map js_String vals)) = map js_String (take k (drop j vals))"
    by (simp add: take_map drop_map)
  then show ?thesis by (simp only: row_decimal)
qed

lemma row_decimal_nth:
  "i < length vals \<Longrightarrow> decimal_value (map js_String vals ! i) = vals ! i"
  by (simp add: decimal_value_js_String)


section \<open>Facts about the report\<close>

lemma popBlank_nonblank:
  "xs \<noteq> [] \<Longrightarrow> last xs \<noteq> [] \<Longrightarrow> popBlank xs = xs"
  by (subst popBlank.simps) simp

lemma str_join_hd_not_Nil:
  "xs \<noteq> [] \<Longrightarrow> hd xs \<noteq> [] \<Longrightarrow> str_join sep xs \<noteq> []"
  by (induction sep xs rule: str_join.induct) auto

lemma item_lines_length [simp]: "length (item_lines items nums) = length items"
  by (simp add: item_lines_def)

lemma item_lines_nth:
  "i < length items \<Longrightarrow>
     item_lines items nums ! i = ''- '' @ items ! i @ '': '' @ item_value nums i"
  by (simp add: item_lines_def nth_enumerate_eq)

lemma item_lines_not_Nil: "items \<noteq> [] \<Longrightarrow> item_lines items nums \<noteq> []"
  by (metis item_lines_length length_0_conv)

lemma item_lines_last: "items \<noteq> [] \<Longrightarrow> last (item_lines items nums) \<noteq> []"
  by (simp add: last_conv_nth item_lines_not_Nil item_lines_nth)

lemma item_lines_map2:
  assumes "length nums = length items"
  shows "item_lines items nums = map2 spec_item_line items nums"
proof (rule nth_equalityI)
  show "length (item_lines items nums) = length (map2 spec_item_line items nums)"
    using assms by simp
next
  fix i
  assume "i < length (item_lines items nums)"
  then have "i < length items" by simp
  then show "item_lines items nums ! i = map2 spec_item_line items nums ! i"
    using assms by (simp add: item_lines_nth item_value_def spec_item_line_def)
qed

lemma NOSE_ITEMS_length: "length NOSE_ITEMS = 5"
  by (simp add: NOSE_ITEMS_def)

lemma popBlank_block:
  "items \<noteq> [] \<Longrightarrow> popBlank (pre @ item_lines items nums @ [[]]) = pre @ item_lines items nums"
proof -
  assume ne: "items \<noteq> []"
  have "popBlank (pre @ item_lines items nums @ [[]]) = popBlank ((pre @ item_lines items nums) @ [[]])"
    by simp
  also have "\<dots> = popBlank (pre @ item_lines items nums)"
    by (rule popBlank_snoc_blank)
  also have "\<dots> = pre @ item_lines items nums"
    using ne by (intro popBlank_nonblank) (simp_all add: item_lines_not_Nil item_lines_last)
  finally show ?thesis .
qed

lemma epr_lines0:
  "[''PROMs recorded:'']
     @ (if (if dateIso \<noteq> [] then [''Date: '' @ ddmmyyyy dateIso] else [])
            @ (if timepoint \<noteq> [] then [''Timepoint: '' @ timepoint] else [])
            @ (if blockLabel \<noteq> [] then [''Dataset: '' @ blockLabel] else []) \<noteq> []
        then [str_join '' | '' ((if dateIso \<noteq> [] then [''Date: '' @ ddmmyyyy dateIso] else [])
            @ (if timepoint \<noteq> [] then [''Timepoint: '' @ timepoint] else [])
            @ (if blockLabel \<noteq> [] then [''Dataset: '' @ blockLabel] else []))]
        else [])
     @ [[]]
   = spec_head dateIso timepoint blockLabel @ [[]]"
  by (simp add: spec_head_def)

lemma spec_head_last:
  "spec_head dateIso timepoint blockLabel \<noteq> [] \<and> last (spec_head dateIso timepoint blockLabel) \<noteq> []"
  by (auto simp: spec_head_def Let_def intro!: str_join_hd_not_Nil)


lemma NOSE_ITEMS_not_Nil: "NOSE_ITEMS \<noteq> []"
  by (simp add: NOSE_ITEMS_def)

lemma SNOT_ITEMS_not_Nil: "SNOT_ITEMS \<noteq> []"
  by (simp add: SNOT_ITEMS_def)

lemma buildEprLines_closed:
  "buildEprLines dateIso timepoint blockLabel nose snot =
     spec_head dateIso timepoint blockLabel
     @ (case nose of
          None \<Rightarrow> []
        | Some ns \<Rightarrow>
            [[], ''NOSE raw total: '' @ js_String (sum_list ns) @ '' / 20'',
             ''NOSE score (0'' @ en_dash @ ''100): '' @ js_String (sum_list ns * 5) @ '' / 100'']
            @ item_lines NOSE_ITEMS ns)
     @ (case snot of
          None \<Rightarrow> []
        | Some ss \<Rightarrow>
            [[], ''SNOT-22 total: '' @ js_String (sum_list ss) @ '' / 110'']
            @ item_lines SNOT_ITEMS ss)"
proof -
  let ?H = "spec_head dateIso timepoint blockLabel"
  show ?thesis
  proof (cases nose)
    case None
    note nose = this
    show ?thesis
    proof (cases snot)
      case None
      have "popBlank (?H @ [[]]) = ?H"
        using spec_head_last [of dateIso timepoint blockLabel]
        by (simp add: popBlank_nonblank)
      then show ?thesis
        unfolding buildEprLines_def Let_def epr_lines0 nose None by simp
    next
      case (Some ss)
      let ?pre = "?H @ [[], ''SNOT-22 total: '' @ js_String (sum_list ss) @ '' / 110'']"
      have "popBlank (?pre @ item_lines SNOT_ITEMS ss @ [[]]) = ?pre @ item_lines SNOT_ITEMS ss"
        using SNOT_ITEMS_not_Nil by (rule popBlank_block)
      then show ?thesis
        unfolding buildEprLines_def Let_def epr_lines0 nose Some
        by (simp add: sum_arr_sum_list)
    qed
  next
    case (Some ns)
    note nose = this
    let ?N = "[[], ''NOSE raw total: '' @ js_String (sum_list ns) @ '' / 20'',
             ''NOSE score (0'' @ en_dash @ ''100): '' @ js_String (sum_list ns * 5) @ '' / 100'']"
    show ?thesis
    proof (cases snot)
      case None
      have "popBlank ((?H @ ?N) @ item_lines NOSE_ITEMS ns @ [[]]) = (?H @ ?N) @ item_lines NOSE_ITEMS ns"
        using NOSE_ITEMS_not_Nil by (rule popBlank_block)
      then show ?thesis
        unfolding buildEprLines_def Let_def epr_lines0 nose None
        by (simp add: sum_arr_sum_list)
    next
      case (Some ss)
      let ?pre = "?H @ ?N @ item_lines NOSE_ITEMS ns
                    @ [[], ''SNOT-22 total: '' @ js_String (sum_list ss) @ '' / 110'']"
      have "popBlank (?pre @ item_lines SNOT_ITEMS ss @ [[]]) = ?pre @ item_lines SNOT_ITEMS ss"
        using SNOT_ITEMS_not_Nil by (rule popBlank_block)
      then show ?thesis
        unfolding buildEprLines_def Let_def epr_lines0 nose Some
        by (simp add: sum_arr_sum_list)
    qed
  qed
qed


lemma item_value_chars: "item_value nums i \<noteq> [] \<and> NL \<notin> set (item_value nums i)"
  by (simp add: item_value_def js_String_not_Nil js_String_no_NL)

lemma item_lines_last_char:
  assumes "items \<noteq> []"
  shows "last (last (item_lines items nums)) \<noteq> NL"
proof -
  let ?k = "length items - 1"
  have k: "?k < length items" using assms by simp
  have "last (item_lines items nums) = item_lines items nums ! ?k"
    using assms by (simp add: last_conv_nth item_lines_not_Nil)
  also have "\<dots> = (''- '' @ items ! ?k @ '': '') @ item_value nums ?k"
    using k by (simp add: item_lines_nth)
  finally have eq: "last (item_lines items nums) =
      (''- '' @ items ! ?k @ '': '') @ item_value nums ?k" .
  have "last (last (item_lines items nums)) = last (item_value nums ?k)"
    unfolding eq using item_value_chars [of nums ?k] by (intro last_appendR) simp
  moreover have "last (item_value nums ?k) \<in> set (item_value nums ?k)"
    using item_value_chars [of nums ?k] by simp
  ultimately show ?thesis
    using item_value_chars [of nums ?k] by metis
qed

lemma buildEprLines_last:
  "buildEprLines dateIso timepoint blockLabel nose snot \<noteq> []
   \<and> last (buildEprLines dateIso timepoint blockLabel nose snot) \<noteq> []"
proof -
  have "buildEprLines dateIso timepoint blockLabel nose snot \<noteq> []"
    using spec_head_last [of dateIso timepoint blockLabel]
    by (simp add: buildEprLines_closed)
  moreover have "popBlank xs = [] \<or> last (popBlank xs) \<noteq> []" for xs
    by (rule popBlank_last)
  then have "buildEprLines dateIso timepoint blockLabel nose snot = []
      \<or> last (buildEprLines dateIso timepoint blockLabel nose snot) \<noteq> []"
    unfolding buildEprLines_def Let_def by blast
  ultimately show ?thesis by blast
qed

lemma buildEprLines_last_item:
  assumes "nose \<noteq> None \<or> snot \<noteq> None"
  shows "last (last (buildEprLines dateIso timepoint blockLabel nose snot)) \<noteq> NL"
proof (cases snot)
  case None
  with assms obtain ns where ns: "nose = Some ns" by auto
  show ?thesis
    unfolding buildEprLines_closed ns None
    using item_lines_last_char [OF NOSE_ITEMS_not_Nil, of ns]
      item_lines_not_Nil [OF NOSE_ITEMS_not_Nil, of ns]
    by simp
next
  case (Some ss)
  show ?thesis
    unfolding buildEprLines_closed Some
    using item_lines_last_char [OF SNOT_ITEMS_not_Nil, of ss]
      item_lines_not_Nil [OF SNOT_ITEMS_not_Nil, of ss]
    by (simp split: option.split)
qed


lemma snot_twos: "item_lines SNOT_ITEMS [2, 2, 2, 2, 2, 2, 2, 2, 2, 2, 2, 2, 2, 2, 2, 2, 2, 2, 2, 2, 2, 2] = [''- Need to blow nose: 2'',
        ''- Sneezing: 2'',
        ''- Runny nose: 2'',
        ''- Nasal obstruction: 2'',
        ''- Loss of smell or taste: 2'',
        ''- Cough: 2'',
        ''- Post-nasal discharge: 2'',
        ''- Thick nasal discharge: 2'',
        ''- Ear fullness: 2'',
        ''- Dizziness: 2'',
        ''- Ear pain: 2'',
        ''- Facial pain/pressure: 2'',
        ''- Difficulty falling asleep: 2'',
        ''- Waking up at night: 2'',
        ''- Lack of a good night'' @ apostrophe @ ''s sleep: 2'',
        ''- Waking up tired: 2'',
        ''- Fatigue: 2'',
        ''- Reduced productivity: 2'',
        ''- Reduced concentration: 2'',
        ''- Frustrated/restless/irritable: 2'',
        ''- Sad: 2'',
        ''- Embarrassed: 2'']"
  by code_simp

section \<open>Facts about the completion classifier\<close>

lemma filter_answered_all:
  "length (filter (\<lambda>v. v \<noteq> None) scores) = length scores \<longleftrightarrow> (\<forall>v \<in> set scores. v \<noteq> None)"
proof
  assume len: "length (filter (\<lambda>v. v \<noteq> None) scores) = length scores"
  show "\<forall>v \<in> set scores. v \<noteq> None"
  proof (rule ccontr)
    assume "\<not> (\<forall>v \<in> set scores. v \<noteq> None)"
    then obtain v where "v \<in> set scores" "\<not> v \<noteq> None" by blast
    then have "length (filter (\<lambda>v. v \<noteq> None) scores) < length scores"
      by (rule length_filter_less)
    with len show False by simp
  qed
next
  assume "\<forall>v \<in> set scores. v \<noteq> None"
  then have "filter (\<lambda>v. v \<noteq> None) scores = scores"
    by (simp only: filter_id_conv)
  then show "length (filter (\<lambda>v. v \<noteq> None) scores) = length scores"
    by simp
qed

lemma filter_answered_none:
  "length (filter (\<lambda>v. v \<noteq> None) scores) = 0 \<longleftrightarrow> (\<forall>v \<in> set scores. v = None)"
  by (simp add: filter_empty_conv)

lemma completionState_empty_iff:
  "completionState scores = ''empty'' \<longleftrightarrow> (\<forall>v \<in> set scores. v = None)"
proof -
  have "completionState scores = ''empty'' \<longleftrightarrow> length (filter (\<lambda>v. v \<noteq> None) scores) = 0"
    by (simp add: completionState_def Let_def)
  then show ?thesis by (simp only: filter_answered_none)
qed

lemma completionState_complete_iff:
  "completionState scores = ''complete'' \<longleftrightarrow> scores \<noteq> [] \<and> (\<forall>v \<in> set scores. v \<noteq> None)"
proof (cases "length (filter (\<lambda>v. v \<noteq> None) scores) = 0")
  case True
  then have none: "\<forall>v \<in> set scores. v = None"
    by (simp only: filter_answered_none)
  have "completionState scores = ''empty''"
    using True by (simp add: completionState_def)
  moreover have "\<not> (scores \<noteq> [] \<and> (\<forall>v \<in> set scores. v \<noteq> None))"
    using none by (cases scores) simp_all
  ultimately show ?thesis by simp
next
  case False
  then have ne: "scores \<noteq> []" by auto
  have "completionState scores = ''complete'' \<longleftrightarrow>
          length (filter (\<lambda>v. v \<noteq> None) scores) = length scores"
    using False by (simp add: completionState_def Let_def)
  then show ?thesis
    using ne by (simp only: filter_answered_all simp_thms)
qed

lemma completionState_cases:
  "completionState scores = ''empty'' \<or> completionState scores = ''complete''
     \<or> completionState scores = ''partial''"
  by (simp add: completionState_def Let_def)

lemma completionState_partial_iff:
  "completionState scores = ''partial'' \<longleftrightarrow>
     \<not> completionState scores = ''empty'' \<and> \<not> completionState scores = ''complete''"
  using completionState_cases [of scores] by auto

lemma mixed_answers:
  "(\<not> (\<forall>v \<in> set scores. v = None) \<and> \<not> (scores \<noteq> [] \<and> (\<forall>v \<in> set scores. v \<noteq> None)))
     \<longleftrightarrow> (\<exists>v \<in> set scores. v \<noteq> None) \<and> (\<exists>v \<in> set scores. v = None)"
  by (cases scores) auto

lemma completionState_partial_mixed:
  "completionState scores = ''partial'' \<longleftrightarrow>
     (\<exists>v \<in> set scores. v \<noteq> None) \<and> (\<exists>v \<in> set scores. v = None)"
  by (simp only: completionState_partial_iff completionState_empty_iff
        completionState_complete_iff mixed_answers)

lemma complete_scoresToNumbers:
  assumes "completionState scores = ''complete''"
  shows "map Some (scoresToNumbers scores) = scores"
proof -
  have "\<forall>v \<in> set scores. v \<noteq> None"
    using assms unfolding completionState_complete_iff by (rule conjunct2)
  then show ?thesis
    unfolding scoresToNumbers_def by (induction scores) auto
qed


section \<open>The completion classifier\<close>

text \<open>
  C2 (as stated): for every answer list the classifier returns \<open>complete\<close> iff every
  slot is answered. The zero-length list refutes it: all of its slots are answered, none
  being there, and the classifier returns \<open>empty\<close>.
\<close>

theorem completionState_complete_iff_all_counterexample:
  "\<not> (completionState [] = ''complete'' \<longleftrightarrow> all_answered [])"
  by (simp add: completionState_def all_answered_def)

text \<open>
  C2 (amended): the classifier is a total function of the answer list; it returns
  \<open>complete\<close> iff the list has at least one slot and every slot is answered,
  \<open>empty\<close> iff no slot is answered, and \<open>partial\<close> in every other case.
\<close>

theorem completionState_classifies:
  "(completionState scores = ''complete'' \<longleftrightarrow> scores \<noteq> [] \<and> all_answered scores)
   \<and> (completionState scores = ''empty'' \<longleftrightarrow> none_answered scores)
   \<and> (completionState scores = ''partial'' \<longleftrightarrow>
        \<not> (scores \<noteq> [] \<and> all_answered scores) \<and> \<not> none_answered scores)"
  unfolding all_answered_def none_answered_def list_all_iff
    completionState_partial_iff completionState_empty_iff completionState_complete_iff
  by (rule conjI [OF refl conjI [OF refl conj_commute]])

theorem completionState_classifies_witness:
  "completionState [Some 0, Some 3] = ''complete''
   \<and> completionState [None, None] = ''empty''
   \<and> completionState [Some 2, None] = ''partial''"
  using completionState_classifies [of "[Some 0, Some 3]"]
        completionState_classifies [of "[None, None]"]
        completionState_classifies [of "[Some 2, None]"]
  by (simp add: all_answered_def none_answered_def)

text \<open>
  C9: on the zero-length answer list the classifier returns \<open>empty\<close> and not
  \<open>complete\<close>, although every slot of that list is answered; and on every list, of any
  length, it returns exactly one of the three states.
\<close>

theorem completionState_zero_length:
  "completionState [] = ''empty'' \<and> completionState [] \<noteq> ''complete'' \<and> all_answered []
   \<and> (\<exists>!st. st \<in> {''empty'', ''complete'', ''partial''} \<and> completionState scores = st)"
proof -
  have "\<exists>!st. st \<in> {''empty'', ''complete'', ''partial''} \<and> completionState scores = st"
    using completionState_cases [of scores] by auto
  then show ?thesis
    by (simp add: completionState_def all_answered_def)
qed

theorem completionState_zero_length_witness:
  "completionState [] = ''empty''
   \<and> (\<exists>!st. st \<in> {''empty'', ''complete'', ''partial''} \<and> completionState [None, Some 4] = st)"
  using completionState_zero_length [of "[None, Some 4]"] by simp

text \<open>
  C3: \<open>assertNotPartialOrThrow\<close> returns the classification when it is \<open>empty\<close> or
  \<open>complete\<close>; on a partial answer list it does not return but fails with the message
  "<label> is partly completed. Please answer all questions in <label>, or clear it and
  leave it blank.", which contains the label.
\<close>

theorem assertNotPartialOrThrow_gate:
  "(completionState scores \<noteq> ''partial'' \<longrightarrow>
      assertNotPartialOrThrow label scores = Inr (completionState scores)
      \<and> completionState scores \<in> {''empty'', ''complete''})
   \<and> (completionState scores = ''partial'' \<longrightarrow>
      assertNotPartialOrThrow label scores =
        Inl (label @ '' is partly completed. Please answer all questions in '' @ label
               @ '', or clear it and leave it blank.'')
      \<and> (\<forall>st. assertNotPartialOrThrow label scores \<noteq> Inr st)
      \<and> (\<forall>msg. assertNotPartialOrThrow label scores = Inl msg \<longrightarrow> sublist label msg))"
proof -
  have "sublist label (label @ '' is partly completed. Please answer all questions in ''
          @ label @ '', or clear it and leave it blank.'')"
    by (rule prefix_imp_sublist) simp
  then show ?thesis
    using completionState_cases [of scores]
    by (auto simp: assertNotPartialOrThrow_def Let_def)
qed

theorem assertNotPartialOrThrow_gate_witness:
  "assertNotPartialOrThrow ''NOSE'' [Some 1, None, Some 0, None, None] =
     Inl ''NOSE is partly completed. Please answer all questions in NOSE, or clear it and leave it blank.''
   \<and> sublist ''NOSE'' ''NOSE is partly completed. Please answer all questions in NOSE, or clear it and leave it blank.''
   \<and> assertNotPartialOrThrow ''SNOT-22'' [Some 1, Some 5] = Inr ''complete''
   \<and> assertNotPartialOrThrow ''SNOT-22'' [None, None] = Inr ''empty''"
proof -
  have p: "completionState [Some 1, None, Some 0, None, None] = ''partial''"
    by (simp add: completionState_def)
  have c: "completionState [Some 1, Some 5] = ''complete''"
    by (simp add: completionState_def)
  have e: "completionState [None, None] = ''empty''"
    by (simp add: completionState_def)
  show ?thesis
    using assertNotPartialOrThrow_gate [of "[Some 1, None, Some 0, None, None]" "''NOSE''"]
          assertNotPartialOrThrow_gate [of "[Some 1, Some 5]" "''SNOT-22''"]
          assertNotPartialOrThrow_gate [of "[None, None]" "''SNOT-22''"]
    by (simp add: p c e)
qed


lemma assert_not_partial:
  "completionState scores \<noteq> ''partial'' \<Longrightarrow>
     assertNotPartialOrThrow label scores = Inr (completionState scores)"
  by (simp add: assertNotPartialOrThrow_def Let_def)

lemma assert_partial:
  "completionState scores = ''partial'' \<Longrightarrow>
     assertNotPartialOrThrow label scores =
       Inl (label @ '' is partly completed. Please answer all questions in '' @ label
              @ '', or clear it and leave it blank.'')"
  by (simp add: assertNotPartialOrThrow_def Let_def)

lemma not_partial_cases:
  "completionState scores \<noteq> ''partial'' \<Longrightarrow>
     completionState scores = ''empty'' \<or> completionState scores = ''complete''"
  using completionState_cases [of scores] by blast


section \<open>Facts about the patient message\<close>

lemma patient_message_closed:
  assumes "completionState nose \<noteq> ''partial''" and "completionState snot \<noteq> ''partial''"
    and "\<not> (completionState nose = ''empty'' \<and> completionState snot = ''empty'')"
  shows "buildPatientMessageOrThrow cfg dateIso timepoint nose snot =
     (let ns = (if completionState nose = ''complete'' then Some (scoresToNumbers nose) else None);
          ss = (if completionState snot = ''complete'' then Some (scoresToNumbers snot) else None);
          readable = buildEprText dateIso timepoint [] ns ss;
          subj = str_join ('' '' @ en_dash @ '' '')
                   ([''NASALPROM PROMs'']
                    @ (if dateIso \<noteq> [] then [ddmmyyyy dateIso] else [])
                    @ (if timepoint \<noteq> [] then [timepoint] else []))
      in if \<not> includeTsvLine cfg
         then Inr \<lparr>subject = subj, body = readable @ [NL]\<rparr>
         else Inr \<lparr>subject = subj,
                 body = readable @ [NL, NL]
                   @ str_join [NL, NL]
                       (case (ns, ss) of
                          (Some n, Some s) \<Rightarrow> [''FULL TSV:'' @ [NL] @ buildFullBlockTSV n s]
                        | (Some n, None) \<Rightarrow> [''NOSE TSV only:'' @ [NL] @ buildNoseOnlyTSV n]
                        | (None, Some s) \<Rightarrow> [''SNOT-22 TSV only:'' @ [NL] @ buildSnotOnlyTSV s]
                        | (None, None) \<Rightarrow> [])
                   @ [NL]\<rparr>)"
  unfolding buildPatientMessageOrThrow_def
    assert_not_partial [OF assms(1)] assert_not_partial [OF assms(2)]
  using assms(3) by (simp only: sum.case Let_def if_False)

lemma patient_message_composed:
  assumes "buildPatientMessageOrThrow cfg dateIso timepoint nose snot = Inr msg"
  shows "completionState nose \<noteq> ''partial'' \<and> completionState snot \<noteq> ''partial''
         \<and> \<not> (completionState nose = ''empty'' \<and> completionState snot = ''empty'')"
proof -
  have n: "completionState nose \<noteq> ''partial''"
  proof
    assume "completionState nose = ''partial''"
    then have "buildPatientMessageOrThrow cfg dateIso timepoint nose snot =
        Inl (''NOSE is partly completed. Please answer all questions in NOSE, or clear it and leave it blank.'')"
      unfolding buildPatientMessageOrThrow_def by (simp add: assert_partial)
    with assms show False by simp
  qed
  have s: "completionState snot \<noteq> ''partial''"
  proof
    assume "completionState snot = ''partial''"
    then have "\<exists>e. buildPatientMessageOrThrow cfg dateIso timepoint nose snot = Inl e"
      unfolding buildPatientMessageOrThrow_def assert_not_partial [OF n]
      by (simp add: assert_partial)
    with assms show False by auto
  qed
  have b: "\<not> (completionState nose = ''empty'' \<and> completionState snot = ''empty'')"
  proof
    assume "completionState nose = ''empty'' \<and> completionState snot = ''empty''"
    then have "\<exists>e. buildPatientMessageOrThrow cfg dateIso timepoint nose snot = Inl e"
      unfolding buildPatientMessageOrThrow_def assert_not_partial [OF n] assert_not_partial [OF s]
      by simp
    with assms show False by auto
  qed
  from n s b show ?thesis by (intro conjI)
qed


section \<open>The date formatter\<close>

text \<open>
  C10: \<open>ddmmyyyy\<close> is total. It returns the empty string for the empty input; it
  returns the input unchanged whenever its split on "-" does not begin with three nonempty
  components; otherwise it returns "<d>/<m>/<y>" built from the first three components.
\<close>

theorem ddmmyyyy_total:
  "ddmmyyyy [] = []
   \<and> (s \<noteq> [] \<and> \<not> three_nonempty (str_split (CHR ''-'') s) \<longrightarrow> ddmmyyyy s = s)
   \<and> (s \<noteq> [] \<and> three_nonempty (str_split (CHR ''-'') s) \<longrightarrow>
        ddmmyyyy s = str_split (CHR ''-'') s ! 2 @ ''/'' @ str_split (CHR ''-'') s ! 1
                       @ ''/'' @ str_split (CHR ''-'') s ! 0)"
  by (auto simp: ddmmyyyy_def three_nonempty_def split: list.splits)

theorem ddmmyyyy_total_witness:
  "ddmmyyyy ''2024-03-05'' = ''05/03/2024''
   \<and> ddmmyyyy ''2024-03'' = ''2024-03''
   \<and> ddmmyyyy ''2024--05'' = ''2024--05''
   \<and> ddmmyyyy ''March 5'' = ''March 5''"
  using ddmmyyyy_total [of "''2024-03-05''"] ddmmyyyy_total [of "''2024-03''"]
        ddmmyyyy_total [of "''2024--05''"] ddmmyyyy_total [of "''March 5''"]
  by (simp add: three_nonempty_def)


section \<open>The tabular rows\<close>

text \<open>
  C4: for five NOSE values and twenty-two SNOT-22 values, the full row splits on tab into
  exactly 29 fields: the NOSE values in item order, their sum, the SNOT-22 values in item
  order, their sum. The NOSE-only row has exactly 6 fields and the SNOT-only row exactly
  23, the values and then their sum. Every field is the plain decimal numeral of its value;
  a row has no trailing tab and is a single line, with no header.
\<close>

theorem tsv_rows:
  assumes "length nose = 5" and "length snot = 22"
  shows
    "(let fields = str_split TAB (buildFullBlockTSV nose snot)
      in length fields = 29
         \<and> fields = map js_String (nose @ [sum_list nose] @ snot @ [sum_list snot])
         \<and> list_all plain_decimal fields
         \<and> map decimal_value (take 5 fields) = nose
         \<and> decimal_value (fields ! 5) = sum_list nose
         \<and> map decimal_value (take 22 (drop 6 fields)) = snot
         \<and> decimal_value (fields ! 28) = sum_list snot)
     \<and> (let fields = str_split TAB (buildNoseOnlyTSV nose)
        in length fields = 6
           \<and> list_all plain_decimal fields
           \<and> map decimal_value fields = nose @ [sum_list nose])
     \<and> (let fields = str_split TAB (buildSnotOnlyTSV snot)
        in length fields = 23
           \<and> list_all plain_decimal fields
           \<and> map decimal_value fields = snot @ [sum_list snot])
     \<and> (\<forall>row \<in> {buildFullBlockTSV nose snot, buildNoseOnlyTSV nose, buildSnotOnlyTSV snot}.
           row \<noteq> [] \<and> last row \<noteq> TAB \<and> NL \<notin> set row)"
proof -
  let ?full = "nose @ [sum_list nose] @ snot @ [sum_list snot]"
  have f: "str_split TAB (buildFullBlockTSV nose snot) = map js_String ?full"
    unfolding full_cols by (rule row_fields) simp
  have n: "str_split TAB (buildNoseOnlyTSV nose) = map js_String (nose @ [sum_list nose])"
    unfolding nose_cols by (rule row_fields) simp
  have s: "str_split TAB (buildSnotOnlyTSV snot) = map js_String (snot @ [sum_list snot])"
    unfolding snot_cols by (rule row_fields) simp
  have f5: "map decimal_value (take 5 (map js_String ?full)) = nose"
    using assms row_decimal_take_drop [of 5 0 ?full] by simp
  have f6: "decimal_value (map js_String ?full ! 5) = sum_list nose"
    using assms row_decimal_nth [of 5 ?full] by (simp add: nth_append)
  have f22: "map decimal_value (take 22 (drop 6 (map js_String ?full))) = snot"
    using assms row_decimal_take_drop [of 22 6 ?full] by simp
  have f29: "decimal_value (map js_String ?full ! 28) = sum_list snot"
    using assms row_decimal_nth [of 28 ?full] by (simp add: nth_append)
  have full: "let fields = str_split TAB (buildFullBlockTSV nose snot)
      in length fields = 29
         \<and> fields = map js_String ?full
         \<and> list_all plain_decimal fields
         \<and> map decimal_value (take 5 fields) = nose
         \<and> decimal_value (fields ! 5) = sum_list nose
         \<and> map decimal_value (take 22 (drop 6 fields)) = snot
         \<and> decimal_value (fields ! 28) = sum_list snot"
    unfolding Let_def f using assms f5 f6 f22 f29 row_plain [of ?full]
    by (simp del: map_append)
  have nose_only: "let fields = str_split TAB (buildNoseOnlyTSV nose)
        in length fields = 6
           \<and> list_all plain_decimal fields
           \<and> map decimal_value fields = nose @ [sum_list nose]"
    unfolding Let_def n
    using assms row_plain [of "nose @ [sum_list nose]"] row_decimal [of "nose @ [sum_list nose]"]
    by (simp del: map_append)
  have snot_only: "let fields = str_split TAB (buildSnotOnlyTSV snot)
        in length fields = 23
           \<and> list_all plain_decimal fields
           \<and> map decimal_value fields = snot @ [sum_list snot]"
    unfolding Let_def s
    using assms row_plain [of "snot @ [sum_list snot]"] row_decimal [of "snot @ [sum_list snot]"]
    by (simp del: map_append)
  have lines: "\<forall>row \<in> {buildFullBlockTSV nose snot, buildNoseOnlyTSV nose, buildSnotOnlyTSV snot}.
           row \<noteq> [] \<and> last row \<noteq> TAB \<and> NL \<notin> set row"
    unfolding full_cols nose_cols snot_cols
    using row_one_line [of ?full] row_one_line [of "nose @ [sum_list nose]"]
      row_one_line [of "snot @ [sum_list snot]"]
    by (simp del: map_append)
  from full nose_only snot_only lines show ?thesis by (intro conjI)
qed


theorem tsv_rows_witness:
  "length (str_split TAB (buildFullBlockTSV [0, 1, 2, 3, 4]
       [2, 2, 2, 2, 2, 2, 2, 2, 2, 2, 2, 2, 2, 2, 2, 2, 2, 2, 2, 2, 2, 2])) = 29
   \<and> decimal_value (str_split TAB (buildFullBlockTSV [0, 1, 2, 3, 4]
       [2, 2, 2, 2, 2, 2, 2, 2, 2, 2, 2, 2, 2, 2, 2, 2, 2, 2, 2, 2, 2, 2]) ! 28) = 44
   \<and> map decimal_value (str_split TAB (buildNoseOnlyTSV [0, 1, 2, 3, 4])) = [0, 1, 2, 3, 4, 10]
   \<and> length (str_split TAB (buildSnotOnlyTSV
       [2, 2, 2, 2, 2, 2, 2, 2, 2, 2, 2, 2, 2, 2, 2, 2, 2, 2, 2, 2, 2, 2])) = 23"
  using tsv_rows [of "[0, 1, 2, 3, 4]"
      "[2, 2, 2, 2, 2, 2, 2, 2, 2, 2, 2, 2, 2, 2, 2, 2, 2, 2, 2, 2, 2, 2]"]
  by (simp add: Let_def decimal_value_js_String)


section \<open>Choice of the row\<close>

text \<open>
  C1: when neither answer list is partial, \<open>buildSmartTSV\<close> has exactly one of four
  outcomes. Both lists complete: mode \<open>full\<close> with the combined row. Only NOSE complete:
  mode \<open>nose\<close> with the NOSE-only row and no SNOT-22 numbers. Only SNOT-22 complete:
  mode \<open>snot\<close> with the SNOT-only row and no NOSE numbers. Both empty: it fails with
  "Please complete NOSE and/or SNOT-22 before copying.". The numbers of a row are the
  answers themselves; no zero stands in for an empty questionnaire.
\<close>

theorem buildSmartTSV_modes:
  assumes "completionState nose \<noteq> ''partial''" and "completionState snot \<noteq> ''partial''"
  shows
    "(completionState nose = ''complete'' \<and> completionState snot = ''complete'' \<longrightarrow>
        buildSmartTSV nose snot =
          Inr \<lparr>mode = ''full'',
               tsv = buildFullBlockTSV (scoresToNumbers nose) (scoresToNumbers snot),
               noseNums = Some (scoresToNumbers nose),
               snotNums = Some (scoresToNumbers snot)\<rparr>
        \<and> map Some (scoresToNumbers nose) = nose \<and> map Some (scoresToNumbers snot) = snot)
     \<and> (completionState nose = ''complete'' \<and> completionState snot = ''empty'' \<longrightarrow>
        buildSmartTSV nose snot =
          Inr \<lparr>mode = ''nose'', tsv = buildNoseOnlyTSV (scoresToNumbers nose),
               noseNums = Some (scoresToNumbers nose), snotNums = None\<rparr>
        \<and> map Some (scoresToNumbers nose) = nose)
     \<and> (completionState nose = ''empty'' \<and> completionState snot = ''complete'' \<longrightarrow>
        buildSmartTSV nose snot =
          Inr \<lparr>mode = ''snot'', tsv = buildSnotOnlyTSV (scoresToNumbers snot),
               noseNums = None, snotNums = Some (scoresToNumbers snot)\<rparr>
        \<and> map Some (scoresToNumbers snot) = snot)
     \<and> (completionState nose = ''empty'' \<and> completionState snot = ''empty'' \<longrightarrow>
        buildSmartTSV nose snot = Inl ''Please complete NOSE and/or SNOT-22 before copying.'')
     \<and> (completionState nose = ''complete'' \<or> completionState nose = ''empty'')
     \<and> (completionState snot = ''complete'' \<or> completionState snot = ''empty'')"
proof -
  have unfold: "buildSmartTSV nose snot =
     (if completionState nose = ''empty'' \<and> completionState snot = ''empty''
      then Inl ''Please complete NOSE and/or SNOT-22 before copying.''
      else if completionState nose = ''complete'' \<and> completionState snot = ''complete''
      then Inr \<lparr>mode = ''full'',
               tsv = buildFullBlockTSV (scoresToNumbers nose) (scoresToNumbers snot),
               noseNums = Some (scoresToNumbers nose),
               snotNums = Some (scoresToNumbers snot)\<rparr>
      else if completionState nose = ''complete''
      then Inr \<lparr>mode = ''nose'', tsv = buildNoseOnlyTSV (scoresToNumbers nose),
               noseNums = Some (scoresToNumbers nose), snotNums = None\<rparr>
      else Inr \<lparr>mode = ''snot'', tsv = buildSnotOnlyTSV (scoresToNumbers snot),
               noseNums = None, snotNums = Some (scoresToNumbers snot)\<rparr>)"
    unfolding buildSmartTSV_def assert_not_partial [OF assms(1)] assert_not_partial [OF assms(2)]
    by (simp only: sum.case Let_def)
  have full: "completionState nose = ''complete'' \<and> completionState snot = ''complete'' \<longrightarrow>
        buildSmartTSV nose snot =
          Inr \<lparr>mode = ''full'',
               tsv = buildFullBlockTSV (scoresToNumbers nose) (scoresToNumbers snot),
               noseNums = Some (scoresToNumbers nose),
               snotNums = Some (scoresToNumbers snot)\<rparr>
        \<and> map Some (scoresToNumbers nose) = nose \<and> map Some (scoresToNumbers snot) = snot"
    by (simp add: unfold complete_scoresToNumbers)
  have nose_only: "completionState nose = ''complete'' \<and> completionState snot = ''empty'' \<longrightarrow>
        buildSmartTSV nose snot =
          Inr \<lparr>mode = ''nose'', tsv = buildNoseOnlyTSV (scoresToNumbers nose),
               noseNums = Some (scoresToNumbers nose), snotNums = None\<rparr>
        \<and> map Some (scoresToNumbers nose) = nose"
    by (simp add: unfold complete_scoresToNumbers)
  have snot_only: "completionState nose = ''empty'' \<and> completionState snot = ''complete'' \<longrightarrow>
        buildSmartTSV nose snot =
          Inr \<lparr>mode = ''snot'', tsv = buildSnotOnlyTSV (scoresToNumbers snot),
               noseNums = None, snotNums = Some (scoresToNumbers snot)\<rparr>
        \<and> map Some (scoresToNumbers snot) = snot"
    by (simp add: unfold complete_scoresToNumbers)
  have none: "completionState nose = ''empty'' \<and> completionState snot = ''empty'' \<longrightarrow>
        buildSmartTSV nose snot = Inl ''Please complete NOSE and/or SNOT-22 before copying.''"
    by (simp add: unfold)
  have n: "completionState nose = ''complete'' \<or> completionState nose = ''empty''"
    using not_partial_cases [OF assms(1)] by blast
  have s: "completionState snot = ''complete'' \<or> completionState snot = ''empty''"
    using not_partial_cases [OF assms(2)] by blast
  from full nose_only snot_only none n s show ?thesis by (intro conjI)
qed


theorem buildSmartTSV_modes_witness:
  "buildSmartTSV [Some 1, Some 0, Some 4, Some 2, Some 3] [None, None, None] =
     Inr \<lparr>mode = ''nose'', tsv = buildNoseOnlyTSV [1, 0, 4, 2, 3],
          noseNums = Some [1, 0, 4, 2, 3], snotNums = None\<rparr>
   \<and> buildSmartTSV [None, None] [Some 5, Some 0, Some 1] =
     Inr \<lparr>mode = ''snot'', tsv = buildSnotOnlyTSV [5, 0, 1],
          noseNums = None, snotNums = Some [5, 0, 1]\<rparr>
   \<and> buildSmartTSV [Some 1, Some 2] [Some 5, Some 0, Some 1] =
     Inr \<lparr>mode = ''full'', tsv = buildFullBlockTSV [1, 2] [5, 0, 1],
          noseNums = Some [1, 2], snotNums = Some [5, 0, 1]\<rparr>
   \<and> buildSmartTSV [None, None] [None, None, None] =
     Inl ''Please complete NOSE and/or SNOT-22 before copying.''"
proof -
  have c1: "completionState [Some 1, Some 0, Some 4, Some 2, Some 3] = ''complete''"
    by (simp add: completionState_def)
  have c2: "completionState [Some 5, Some 0, Some 1] = ''complete''"
    by (simp add: completionState_def)
  have c3: "completionState [Some 1, Some 2] = ''complete''"
    by (simp add: completionState_def)
  have e2: "completionState [None, None] = ''empty''"
    by (simp add: completionState_def)
  have e3: "completionState [None, None, None] = ''empty''"
    by (simp add: completionState_def)
  show ?thesis
    using buildSmartTSV_modes [of "[Some 1, Some 0, Some 4, Some 2, Some 3]" "[None, None, None]"]
      buildSmartTSV_modes [of "[None, None]" "[Some 5, Some 0, Some 1]"]
      buildSmartTSV_modes [of "[Some 1, Some 2]" "[Some 5, Some 0, Some 1]"]
      buildSmartTSV_modes [of "[None, None]" "[None, None, None]"]
    by (simp add: c1 c2 c3 e2 e3 scoresToNumbers_def)
qed


section \<open>The narrative report\<close>

text \<open>
  C5: a report built with five NOSE scores consists of the header, a blank line, the line
  "NOSE raw total: <raw> / 20", then the line "NOSE score (0-100): <scaled> / 100" (with
  an en dash in the range) where raw is the sum of the scores and scaled is raw * 5, then
  one line "- <label>: <value>" per NOSE item in item order. For the scores (1,1,1,1,1)
  the two lines are "NOSE raw total: 5 / 20" and "NOSE score (0-100): 25 / 100". The
  SNOT-22 block, when present, starts with "SNOT-22 total: <raw> / 110" and goes straight
  on to its item lines: it has no scaled score.
\<close>

theorem buildEprText_nose_block:
  "buildEprText dateIso timepoint blockLabel (Some ns) snot =
     str_join [NL]
       (spec_head dateIso timepoint blockLabel
        @ [[],
           ''NOSE raw total: '' @ js_String (sum_list ns) @ '' / 20'',
           ''NOSE score (0'' @ en_dash @ ''100): '' @ js_String (sum_list ns * 5) @ '' / 100'']
        @ item_lines NOSE_ITEMS ns
        @ (case snot of
             None \<Rightarrow> []
           | Some ss \<Rightarrow>
               [[], ''SNOT-22 total: '' @ js_String (sum_list ss) @ '' / 110'']
               @ item_lines SNOT_ITEMS ss))
   \<and> (length ns = 5 \<longrightarrow> item_lines NOSE_ITEMS ns = map2 spec_item_line NOSE_ITEMS ns)
   \<and> buildEprText dateIso timepoint blockLabel (Some [1, 1, 1, 1, 1]) snot =
        str_join [NL]
          (spec_head dateIso timepoint blockLabel
           @ [[],
              ''NOSE raw total: 5 / 20'',
              ''NOSE score (0'' @ en_dash @ ''100): 25 / 100'',
              ''- Nasal congestion: 1'',
              ''- Nasal obstruction: 1'',
              ''- Trouble breathing through nose: 1'',
              ''- Trouble sleeping: 1'',
              ''- Unable to get enough air through nose during exercise: 1'']
           @ (case snot of
                None \<Rightarrow> []
              | Some ss \<Rightarrow>
                  [[], ''SNOT-22 total: '' @ js_String (sum_list ss) @ '' / 110'']
                  @ item_lines SNOT_ITEMS ss))"
proof -
  have general: "buildEprText dateIso timepoint blockLabel (Some n) snot =
     str_join [NL]
       (spec_head dateIso timepoint blockLabel
        @ [[],
           ''NOSE raw total: '' @ js_String (sum_list n) @ '' / 20'',
           ''NOSE score (0'' @ en_dash @ ''100): '' @ js_String (sum_list n * 5) @ '' / 100'']
        @ item_lines NOSE_ITEMS n
        @ (case snot of
             None \<Rightarrow> []
           | Some ss \<Rightarrow>
               [[], ''SNOT-22 total: '' @ js_String (sum_list ss) @ '' / 110'']
               @ item_lines SNOT_ITEMS ss))" for n
    unfolding buildEprText_def buildEprLines_closed by simp
  have items: "length ns = 5 \<longrightarrow> item_lines NOSE_ITEMS ns = map2 spec_item_line NOSE_ITEMS ns"
    by (simp add: item_lines_map2 NOSE_ITEMS_length)
  have five: "js_String 5 = ''5''" and twentyfive: "js_String 25 = ''25''"
    and one: "js_String 1 = ''1''"
    by (simp_all add: js_String_def showNat.simps digit_def)
  have "item_lines NOSE_ITEMS [1, 1, 1, 1, 1] = map2 spec_item_line NOSE_ITEMS [1, 1, 1, 1, 1]"
    by (simp add: item_lines_map2 NOSE_ITEMS_length)
  also have "\<dots> =
      [''- Nasal congestion: 1'',
       ''- Nasal obstruction: 1'',
       ''- Trouble breathing through nose: 1'',
       ''- Trouble sleeping: 1'',
       ''- Unable to get enough air through nose during exercise: 1'']"
    by (simp add: NOSE_ITEMS_def spec_item_line_def one)
  finally have ones: "item_lines NOSE_ITEMS [1, 1, 1, 1, 1] =
      [''- Nasal congestion: 1'',
       ''- Nasal obstruction: 1'',
       ''- Trouble breathing through nose: 1'',
       ''- Trouble sleeping: 1'',
       ''- Unable to get enough air through nose during exercise: 1'']" .
  have example: "buildEprText dateIso timepoint blockLabel (Some [1, 1, 1, 1, 1]) snot =
        str_join [NL]
          (spec_head dateIso timepoint blockLabel
           @ [[],
              ''NOSE raw total: 5 / 20'',
              ''NOSE score (0'' @ en_dash @ ''100): 25 / 100'',
              ''- Nasal congestion: 1'',
              ''- Nasal obstruction: 1'',
              ''- Trouble breathing through nose: 1'',
              ''- Trouble sleeping: 1'',
              ''- Unable to get enough air through nose during exercise: 1'']
           @ (case snot of
                None \<Rightarrow> []
              | Some ss \<Rightarrow>
                  [[], ''SNOT-22 total: '' @ js_String (sum_list ss) @ '' / 110'']
                  @ item_lines SNOT_ITEMS ss))"
    unfolding general [of "[1, 1, 1, 1, 1]"] ones
    by (simp add: five twentyfive)
  from general [of ns] items example show ?thesis by (intro conjI)
qed

theorem buildEprText_nose_block_witness:
  "buildEprText ''2024-03-05'' ''Pre-op'' ''Baseline'' (Some [0, 1, 2, 3, 4]) None =
     str_join [NL]
       [''PROMs recorded:'',
        ''Date: 05/03/2024 | Timepoint: Pre-op | Dataset: Baseline'',
        [],
        ''NOSE raw total: 10 / 20'',
        ''NOSE score (0'' @ en_dash @ ''100): 50 / 100'',
        ''- Nasal congestion: 0'',
        ''- Nasal obstruction: 1'',
        ''- Trouble breathing through nose: 2'',
        ''- Trouble sleeping: 3'',
        ''- Unable to get enough air through nose during exercise: 4'']"
proof -
  note inst = buildEprText_nose_block [where ns = "[0, 1, 2, 3, 4]"
      and dateIso = "''2024-03-05''" and timepoint = "''Pre-op''"
      and blockLabel = "''Baseline''" and snot = None]
  have head: "spec_head ''2024-03-05'' ''Pre-op'' ''Baseline'' =
      [''PROMs recorded:'', ''Date: 05/03/2024 | Timepoint: Pre-op | Dataset: Baseline'']"
    by (simp add: spec_head_def ddmmyyyy_def)
  have nums: "js_String 10 = ''10''" "js_String 50 = ''50''" "js_String 0 = ''0''"
    "js_String 1 = ''1''" "js_String 2 = ''2''" "js_String 3 = ''3''" "js_String 4 = ''4''"
    by (simp_all add: js_String_def showNat.simps digit_def)
  have "item_lines NOSE_ITEMS [0, 1, 2, 3, 4] = map2 spec_item_line NOSE_ITEMS [0, 1, 2, 3, 4]"
    using inst [THEN conjunct2, THEN conjunct1] by simp
  then have items: "item_lines NOSE_ITEMS [0, 1, 2, 3, 4] =
      [''- Nasal congestion: 0'',
       ''- Nasal obstruction: 1'',
       ''- Trouble breathing through nose: 2'',
       ''- Trouble sleeping: 3'',
       ''- Unable to get enough air through nose during exercise: 4'']"
    by (simp add: NOSE_ITEMS_def spec_item_line_def nums)
  show ?thesis
    unfolding inst [THEN conjunct1] head items
    by (simp add: nums del: str_join.simps)
qed

text \<open>
  C6: a report built without NOSE scores consists of the header and, when SNOT-22 scores
  are given, a blank line and the SNOT-22 block; it has no line of the NOSE block, and
  likewise with the instruments exchanged. Every report is the join of its lines with
  newlines, the last of which is never blank; when an instrument is present the text does
  not end with a newline.
\<close>

theorem buildEprText_omitted:
  "buildEprText dateIso timepoint blockLabel None snot =
     str_join [NL]
       (spec_head dateIso timepoint blockLabel
        @ (case snot of
             None \<Rightarrow> []
           | Some ss \<Rightarrow>
               [[], ''SNOT-22 total: '' @ js_String (sum_list ss) @ '' / 110'']
               @ item_lines SNOT_ITEMS ss))
   \<and> buildEprText dateIso timepoint blockLabel nose None =
     str_join [NL]
       (spec_head dateIso timepoint blockLabel
        @ (case nose of
             None \<Rightarrow> []
           | Some ns \<Rightarrow>
               [[], ''NOSE raw total: '' @ js_String (sum_list ns) @ '' / 20'',
                ''NOSE score (0'' @ en_dash @ ''100): '' @ js_String (sum_list ns * 5)
                  @ '' / 100'']
               @ item_lines NOSE_ITEMS ns))
   \<and> buildEprText dateIso timepoint blockLabel nose snot =
       str_join [NL] (buildEprLines dateIso timepoint blockLabel nose snot)
   \<and> buildEprLines dateIso timepoint blockLabel nose snot \<noteq> []
   \<and> last (buildEprLines dateIso timepoint blockLabel nose snot) \<noteq> []
   \<and> buildEprText dateIso timepoint blockLabel nose snot \<noteq> []
   \<and> (nose \<noteq> None \<or> snot \<noteq> None \<longrightarrow>
        last (buildEprText dateIso timepoint blockLabel nose snot) \<noteq> NL)"
proof -
  let ?lines = "buildEprLines dateIso timepoint blockLabel nose snot"
  have a: "buildEprText dateIso timepoint blockLabel None snot =
     str_join [NL]
       (spec_head dateIso timepoint blockLabel
        @ (case snot of
             None \<Rightarrow> []
           | Some ss \<Rightarrow>
               [[], ''SNOT-22 total: '' @ js_String (sum_list ss) @ '' / 110'']
               @ item_lines SNOT_ITEMS ss))"
    unfolding buildEprText_def buildEprLines_closed by simp
  have b: "buildEprText dateIso timepoint blockLabel nose None =
     str_join [NL]
       (spec_head dateIso timepoint blockLabel
        @ (case nose of
             None \<Rightarrow> []
           | Some ns \<Rightarrow>
               [[], ''NOSE raw total: '' @ js_String (sum_list ns) @ '' / 20'',
                ''NOSE score (0'' @ en_dash @ ''100): '' @ js_String (sum_list ns * 5)
                  @ '' / 100'']
               @ item_lines NOSE_ITEMS ns))"
    unfolding buildEprText_def buildEprLines_closed by simp
  have c: "buildEprText dateIso timepoint blockLabel nose snot = str_join [NL] ?lines"
    by (simp add: buildEprText_def)
  have d: "?lines \<noteq> []" and e: "last ?lines \<noteq> []"
    using buildEprLines_last [of dateIso timepoint blockLabel nose snot] by simp_all
  have f: "buildEprText dateIso timepoint blockLabel nose snot \<noteq> []"
    unfolding c using d e by (rule str_join_not_Nil)
  have g: "nose \<noteq> None \<or> snot \<noteq> None \<longrightarrow>
        last (buildEprText dateIso timepoint blockLabel nose snot) \<noteq> NL"
  proof
    assume present: "nose \<noteq> None \<or> snot \<noteq> None"
    have "last (str_join [NL] ?lines) = last (last ?lines)"
      using d e by (rule str_join_last)
    then show "last (buildEprText dateIso timepoint blockLabel nose snot) \<noteq> NL"
      unfolding c using buildEprLines_last_item [OF present] by simp
  qed
  from a b c d e f g show ?thesis by (intro conjI)
qed

theorem buildEprText_omitted_witness:
  "buildEprText [] ''Pre-op'' [] None (Some [2, 2, 2, 2, 2, 2, 2, 2, 2, 2, 2, 2, 2, 2, 2, 2, 2, 2, 2, 2, 2, 2]) =
     str_join [NL]
       [''PROMs recorded:'',
        ''Timepoint: Pre-op'',
        [],
        ''SNOT-22 total: 44 / 110'',
        ''- Need to blow nose: 2'',
        ''- Sneezing: 2'',
        ''- Runny nose: 2'',
        ''- Nasal obstruction: 2'',
        ''- Loss of smell or taste: 2'',
        ''- Cough: 2'',
        ''- Post-nasal discharge: 2'',
        ''- Thick nasal discharge: 2'',
        ''- Ear fullness: 2'',
        ''- Dizziness: 2'',
        ''- Ear pain: 2'',
        ''- Facial pain/pressure: 2'',
        ''- Difficulty falling asleep: 2'',
        ''- Waking up at night: 2'',
        ''- Lack of a good night'' @ apostrophe @ ''s sleep: 2'',
        ''- Waking up tired: 2'',
        ''- Fatigue: 2'',
        ''- Reduced productivity: 2'',
        ''- Reduced concentration: 2'',
        ''- Frustrated/restless/irritable: 2'',
        ''- Sad: 2'',
        ''- Embarrassed: 2'']
   \<and> last (buildEprText [] ''Pre-op'' [] None (Some [2, 2, 2, 2, 2, 2, 2, 2, 2, 2, 2, 2, 2, 2, 2, 2, 2, 2, 2, 2, 2, 2])) \<noteq> NL
   \<and> buildEprText [] [] [] None None = ''PROMs recorded:''"
proof -
  have head: "spec_head [] ''Pre-op'' [] = [''PROMs recorded:'', ''Timepoint: Pre-op'']"
    and head0: "spec_head [] [] [] = [''PROMs recorded:'']"
    by (simp_all add: spec_head_def)
  have total: "js_String 44 = ''44''"
    by (simp add: js_String_def showNat.simps digit_def)
  note snot_only = buildEprText_omitted [where dateIso = "[]" and timepoint = "''Pre-op''"
        and blockLabel = "[]" and nose = None and snot = "Some [2, 2, 2, 2, 2, 2, 2, 2, 2, 2, 2, 2, 2, 2, 2, 2, 2, 2, 2, 2, 2, 2]"]
  note neither = buildEprText_omitted [where dateIso = "[]" and timepoint = "[]"
        and blockLabel = "[]" and nose = None and snot = None]
  have a: "buildEprText [] ''Pre-op'' [] None (Some [2, 2, 2, 2, 2, 2, 2, 2, 2, 2, 2, 2, 2, 2, 2, 2, 2, 2, 2, 2, 2, 2]) =
     str_join [NL]
       [''PROMs recorded:'',
        ''Timepoint: Pre-op'',
        [],
        ''SNOT-22 total: 44 / 110'',
        ''- Need to blow nose: 2'',
        ''- Sneezing: 2'',
        ''- Runny nose: 2'',
        ''- Nasal obstruction: 2'',
        ''- Loss of smell or taste: 2'',
        ''- Cough: 2'',
        ''- Post-nasal discharge: 2'',
        ''- Thick nasal discharge: 2'',
        ''- Ear fullness: 2'',
        ''- Dizziness: 2'',
        ''- Ear pain: 2'',
        ''- Facial pain/pressure: 2'',
        ''- Difficulty falling asleep: 2'',
        ''- Waking up at night: 2'',
        ''- Lack of a good night'' @ apostrophe @ ''s sleep: 2'',
        ''- Waking up tired: 2'',
        ''- Fatigue: 2'',
        ''- Reduced productivity: 2'',
        ''- Reduced concentration: 2'',
        ''- Frustrated/restless/irritable: 2'',
        ''- Sad: 2'',
        ''- Embarrassed: 2'']"
    using snot_only [THEN conjunct1]
    by (simp add: head total snot_twos del: str_join.simps)
  have b: "last (buildEprText [] ''Pre-op'' [] None (Some [2, 2, 2, 2, 2, 2, 2, 2, 2, 2, 2, 2, 2, 2, 2, 2, 2, 2, 2, 2, 2, 2])) \<noteq> NL"
    using snot_only [THEN conjunct2, THEN conjunct2, THEN conjunct2, THEN conjunct2,
        THEN conjunct2, THEN conjunct2]
    by simp
  have c: "buildEprText [] [] [] None None = ''PROMs recorded:''"
    using neither [THEN conjunct1] by (simp add: head0)
  from a b c show ?thesis by (intro conjI)
qed


section \<open>The patient message\<close>

text \<open>
  C7: the subject of every composed patient message is "NASALPROM PROMs", followed by
  " - " (an en dash between spaces) and the formatted date when a date is present, followed
  by " - " and the timepoint when a timepoint is present; an absent field leaves nothing
  behind. A date \<open>y-m-d\<close> is rendered \<open>d/m/y\<close>. For the date 2024-03-05 and the
  timepoint "Pre-op" the subject is exactly "NASALPROM PROMs - 05/03/2024 - Pre-op" (with en
  dashes).
\<close>

theorem patient_message_subject:
  assumes "buildPatientMessageOrThrow cfg dateIso timepoint nose snot = Inr msg"
  shows
    "subject msg =
       ''NASALPROM PROMs''
       @ (if dateIso = [] then [] else '' '' @ en_dash @ '' '' @ ddmmyyyy dateIso)
       @ (if timepoint = [] then [] else '' '' @ en_dash @ '' '' @ timepoint)
     \<and> (\<forall>y m d. dateIso = y @ ''-'' @ m @ ''-'' @ d \<and> y \<noteq> [] \<and> m \<noteq> [] \<and> d \<noteq> []
            \<and> CHR ''-'' \<notin> set y \<and> CHR ''-'' \<notin> set m \<and> CHR ''-'' \<notin> set d
          \<longrightarrow> ddmmyyyy dateIso = d @ ''/'' @ m @ ''/'' @ y)
     \<and> (dateIso = ''2024-03-05'' \<and> timepoint = ''Pre-op'' \<longrightarrow>
          subject msg = ''NASALPROM PROMs '' @ en_dash @ '' 05/03/2024 '' @ en_dash @ '' Pre-op'')"
proof -
  note ok = patient_message_composed [OF assms]
  have closed: "buildPatientMessageOrThrow cfg dateIso timepoint nose snot = Inr msg"
    by (rule assms)
  have subj: "subject msg =
      str_join ('' '' @ en_dash @ '' '')
        ([''NASALPROM PROMs'']
         @ (if dateIso \<noteq> [] then [ddmmyyyy dateIso] else [])
         @ (if timepoint \<noteq> [] then [timepoint] else []))"
    using closed
    unfolding patient_message_closed [OF ok [THEN conjunct1] ok [THEN conjunct2, THEN conjunct1]
        ok [THEN conjunct2, THEN conjunct2]] Let_def
    by (auto split: if_splits)
  have a: "subject msg =
       ''NASALPROM PROMs''
       @ (if dateIso = [] then [] else '' '' @ en_dash @ '' '' @ ddmmyyyy dateIso)
       @ (if timepoint = [] then [] else '' '' @ en_dash @ '' '' @ timepoint)"
    unfolding subj by simp
  have b: "\<forall>y m d. dateIso = y @ ''-'' @ m @ ''-'' @ d \<and> y \<noteq> [] \<and> m \<noteq> [] \<and> d \<noteq> []
            \<and> CHR ''-'' \<notin> set y \<and> CHR ''-'' \<notin> set m \<and> CHR ''-'' \<notin> set d
          \<longrightarrow> ddmmyyyy dateIso = d @ ''/'' @ m @ ''/'' @ y"
    using ddmmyyyy_iso by blast
  have c: "dateIso = ''2024-03-05'' \<and> timepoint = ''Pre-op'' \<longrightarrow>
          subject msg = ''NASALPROM PROMs '' @ en_dash @ '' 05/03/2024 '' @ en_dash @ '' Pre-op''"
  proof
    assume eq: "dateIso = ''2024-03-05'' \<and> timepoint = ''Pre-op''"
    have "ddmmyyyy ''2024-03-05'' = ''05/03/2024''"
      by (simp add: ddmmyyyy_def)
    then show "subject msg = ''NASALPROM PROMs '' @ en_dash @ '' 05/03/2024 '' @ en_dash @ '' Pre-op''"
      unfolding a using eq by simp
  qed
  from a b c show ?thesis by (intro conjI)
qed

theorem patient_message_subject_witness:
  "\<exists>msg. buildPatientMessageOrThrow None ''2024-03-05'' ''Pre-op''
            [Some 1, Some 1, Some 1, Some 1, Some 1] [None, None, None] = Inr msg
          \<and> subject msg = ''NASALPROM PROMs '' @ en_dash @ '' 05/03/2024 '' @ en_dash @ '' Pre-op''"
proof -
  have c: "completionState [Some 1, Some 1, Some 1, Some 1, Some 1] = ''complete''"
    by (simp add: completionState_def)
  have e: "completionState [None, None, None] = ''empty''"
    by (simp add: completionState_def)
  obtain msg where m: "buildPatientMessageOrThrow None ''2024-03-05'' ''Pre-op''
            [Some 1, Some 1, Some 1, Some 1, Some 1] [None, None, None] = Inr msg"
    using patient_message_closed [of "[Some 1, Some 1, Some 1, Some 1, Some 1]"
        "[None, None, None]" None "''2024-03-05''" "''Pre-op''"]
    by (simp add: c e Let_def includeTsvLine_def)
  from patient_message_subject [OF m, THEN conjunct2, THEN conjunct2]
  have "subject msg = ''NASALPROM PROMs '' @ en_dash @ '' 05/03/2024 '' @ en_dash @ '' Pre-op''"
    by simp
  with m show ?thesis by blast
qed

text \<open>
  C8: with the include-TSV flag set (the default, when the configuration does not set it to
  false) the body of a composed patient message is the narrative report, a blank line, the
  label of the mode ("FULL TSV:", "NOSE TSV only:" or "SNOT-22 TSV only:"), a newline, the
  row of that mode, and a final newline. With the flag false the body is the narrative
  report and a single final newline. Exactly one of the three modes applies.
\<close>

theorem patient_message_body:
  assumes "buildPatientMessageOrThrow cfg dateIso timepoint nose snot = Inr msg"
  shows
    "(let ns = (if completionState nose = ''complete'' then Some (scoresToNumbers nose) else None);
          ss = (if completionState snot = ''complete'' then Some (scoresToNumbers snot) else None);
          readable = buildEprText dateIso timepoint [] ns ss
      in (cfg = Some False \<longrightarrow> body msg = readable @ [NL])
         \<and> (cfg \<noteq> Some False \<longrightarrow>
              (completionState nose = ''complete'' \<and> completionState snot = ''complete'' \<longrightarrow>
                 body msg = readable @ [NL, NL] @ ''FULL TSV:'' @ [NL]
                   @ buildFullBlockTSV (scoresToNumbers nose) (scoresToNumbers snot) @ [NL])
              \<and> (completionState nose = ''complete'' \<and> completionState snot = ''empty'' \<longrightarrow>
                 body msg = readable @ [NL, NL] @ ''NOSE TSV only:'' @ [NL]
                   @ buildNoseOnlyTSV (scoresToNumbers nose) @ [NL])
              \<and> (completionState nose = ''empty'' \<and> completionState snot = ''complete'' \<longrightarrow>
                 body msg = readable @ [NL, NL] @ ''SNOT-22 TSV only:'' @ [NL]
                   @ buildSnotOnlyTSV (scoresToNumbers snot) @ [NL])))
     \<and> (completionState nose = ''complete'' \<and> completionState snot = ''complete''
        \<or> completionState nose = ''complete'' \<and> completionState snot = ''empty''
        \<or> completionState nose = ''empty'' \<and> completionState snot = ''complete'')
     \<and> includeTsvLine None"
proof -
  note ok = patient_message_composed [OF assms]
  note closed = patient_message_closed [OF ok [THEN conjunct1]
      ok [THEN conjunct2, THEN conjunct1] ok [THEN conjunct2, THEN conjunct2]]
  have n: "completionState nose = ''complete'' \<or> completionState nose = ''empty''"
    using not_partial_cases [OF ok [THEN conjunct1]] by blast
  have s: "completionState snot = ''complete'' \<or> completionState snot = ''empty''"
    using not_partial_cases [OF ok [THEN conjunct2, THEN conjunct1]] by blast
  have modes: "completionState nose = ''complete'' \<and> completionState snot = ''complete''
        \<or> completionState nose = ''complete'' \<and> completionState snot = ''empty''
        \<or> completionState nose = ''empty'' \<and> completionState snot = ''complete''"
    using n s ok by blast
  have bodies: "let ns = (if completionState nose = ''complete'' then Some (scoresToNumbers nose) else None);
          ss = (if completionState snot = ''complete'' then Some (scoresToNumbers snot) else None);
          readable = buildEprText dateIso timepoint [] ns ss
      in (cfg = Some False \<longrightarrow> body msg = readable @ [NL])
         \<and> (cfg \<noteq> Some False \<longrightarrow>
              (completionState nose = ''complete'' \<and> completionState snot = ''complete'' \<longrightarrow>
                 body msg = readable @ [NL, NL] @ ''FULL TSV:'' @ [NL]
                   @ buildFullBlockTSV (scoresToNumbers nose) (scoresToNumbers snot) @ [NL])
              \<and> (completionState nose = ''complete'' \<and> completionState snot = ''empty'' \<longrightarrow>
                 body msg = readable @ [NL, NL] @ ''NOSE TSV only:'' @ [NL]
                   @ buildNoseOnlyTSV (scoresToNumbers nose) @ [NL])
              \<and> (completionState nose = ''empty'' \<and> completionState snot = ''complete'' \<longrightarrow>
                 body msg = readable @ [NL, NL] @ ''SNOT-22 TSV only:'' @ [NL]
                   @ buildSnotOnlyTSV (scoresToNumbers snot) @ [NL]))"
    using assms unfolding closed Let_def includeTsvLine_def
    by (auto split: if_splits)
  have dflt: "includeTsvLine None"
    by (simp add: includeTsvLine_def)
  from bodies modes dflt show ?thesis by (intro conjI)
qed


theorem patient_message_body_witness:
  "(\<exists>msg. buildPatientMessageOrThrow None ''2024-03-05'' ''Pre-op''
            [Some 1, Some 1, Some 1, Some 1, Some 1] [None, None, None] = Inr msg
          \<and> body msg =
              buildEprText ''2024-03-05'' ''Pre-op'' [] (Some [1, 1, 1, 1, 1]) None
              @ [NL, NL] @ ''NOSE TSV only:'' @ [NL] @ buildNoseOnlyTSV [1, 1, 1, 1, 1] @ [NL])
   \<and> (\<exists>msg. buildPatientMessageOrThrow (Some False) ''2024-03-05'' ''Pre-op''
            [Some 1, Some 1, Some 1, Some 1, Some 1] [None, None, None] = Inr msg
          \<and> body msg =
              buildEprText ''2024-03-05'' ''Pre-op'' [] (Some [1, 1, 1, 1, 1]) None @ [NL])"
proof -
  have c: "completionState [Some 1, Some 1, Some 1, Some 1, Some 1] = ''complete''"
    by (simp add: completionState_def)
  have e: "completionState [None, None, None] = ''empty''"
    by (simp add: completionState_def)
  have nums: "scoresToNumbers [Some 1, Some 1, Some 1, Some 1, Some 1] = [1, 1, 1, 1, 1]"
    by (simp add: scoresToNumbers_def)
  obtain m1 where m1: "buildPatientMessageOrThrow None ''2024-03-05'' ''Pre-op''
            [Some 1, Some 1, Some 1, Some 1, Some 1] [None, None, None] = Inr m1"
    using patient_message_closed [of "[Some 1, Some 1, Some 1, Some 1, Some 1]"
        "[None, None, None]" None "''2024-03-05''" "''Pre-op''"]
    by (simp add: c e Let_def includeTsvLine_def)
  obtain m2 where m2: "buildPatientMessageOrThrow (Some False) ''2024-03-05'' ''Pre-op''
            [Some 1, Some 1, Some 1, Some 1, Some 1] [None, None, None] = Inr m2"
    using patient_message_closed [of "[Some 1, Some 1, Some 1, Some 1, Some 1]"
        "[None, None, None]" "Some False" "''2024-03-05''" "''Pre-op''"]
    by (simp add: c e Let_def includeTsvLine_def)
  from patient_message_body [OF m1, THEN conjunct1]
  have b1: "body m1 =
              buildEprText ''2024-03-05'' ''Pre-op'' [] (Some [1, 1, 1, 1, 1]) None
              @ [NL, NL] @ ''NOSE TSV only:'' @ [NL] @ buildNoseOnlyTSV [1, 1, 1, 1, 1] @ [NL]"
    by (simp add: c e nums Let_def)
  from patient_message_body [OF m2, THEN conjunct1]
  have b2: "body m2 =
              buildEprText ''2024-03-05'' ''Pre-op'' [] (Some [1, 1, 1, 1, 1]) None @ [NL]"
    by (simp add: c e nums Let_def)
  from m1 b1 m2 b2 show ?thesis by blast
qed

end
